theory Spec2Isabelle
  imports Main
begin

section \<open>Messages, chunks and the reasoning engine\<close>

text \<open>
  The content of a LangChain message is either a string or an array of content parts
  (objects). The handler reads it through \<^verbatim>\<open>String(...)\<close>, so both shapes are kept:
  \<open>Parts n\<close> is an array of \<open>n\<close> part objects.
\<close>

datatype msg_content = Text string | Parts nat

datatype msg_role = Human | AI | Tool

record base_message =
  role :: msg_role
  content :: msg_content

text \<open>\<^verbatim>\<open>Array.prototype.join\<close> on an array of strings.\<close>

fun join :: "string \<Rightarrow> string list \<Rightarrow> string" where
  "join sep [] = []"
| "join sep [x] = x"
| "join sep (x # y # ys) = x @ sep @ join sep (y # ys)"

text \<open>
  \<^verbatim>\<open>String(v)\<close>: a string is returned as it is; an array is the \<^verbatim>\<open>String\<close> of its
  elements joined by a comma, and a plain object prints as \<^verbatim>\<open>[object Object]\<close>.
\<close>

fun js_String :: "msg_content \<Rightarrow> string" where
  "js_String (Text t) = t"
| "js_String (Parts n) = join '','' (replicate n ''[object Object]'')"

definition HumanMessage :: "string \<Rightarrow> base_message" where
  "HumanMessage text = \<lparr>role = Human, content = Text text\<rparr>"

text \<open>
  A chunk of the stream is an object keyed by the name of the graph node that ran; the
  value under a key carries the messages that node produced.
  \<^verbatim>\<open>"agent" in chunk\<close> is \<open>chunk ''agent'' \<noteq> None\<close>.
\<close>

record node_update =
  messages :: "base_message list"

type_synonym chunk = "string \<Rightarrow> node_update option"

text \<open>
  What the asynchronous iterator does when the loop asks for the next chunk: it yields
  one, or it throws. The end of the list is the end of the stream. The promise returned
  by \<^verbatim>\<open>agent.stream(...)\<close> itself either rejects or resolves to such an iterator.
\<close>

datatype event = Yield chunk | Throw

datatype outcome = Rejects | Opens "event list"

record session_config =
  thread_id :: string

text \<open>
  The engine is an external collaborator with a memory of its own (the checkpoint saver)
  and a language model behind it: a call to \<^verbatim>\<open>stream\<close> gets the message array and the
  config, and gives an outcome and the engine as it is afterwards. Nothing else is known
  about it, so every theorem below holds for all engines.
\<close>

codatatype engine =
  Engine (stream: "base_message list \<Rightarrow> session_config option \<Rightarrow> outcome \<times> engine")

section \<open>The module's state and the HTTP values\<close>

datatype console_line = ConsoleLog msg_content | ConsoleError string

text \<open>
  The three module-level variables \<^verbatim>\<open>agent\<close>, \<^verbatim>\<open>config\<close>, \<^verbatim>\<open>messageHistory\<close>
  (\<open>None\<close> is \<^verbatim>\<open>undefined\<close>), and what has been written to the console.
\<close>

record state =
  agent :: "engine option"
  config :: "session_config option"
  messageHistory :: "base_message list"
  console :: "console_line list"

definition initial_state :: state where
  "initial_state = \<lparr>agent = None, config = None, messageHistory = [], console = []\<rparr>"

text \<open>
  The parsed body of a request to \<^verbatim>\<open>/api/chat\<close>: the \<^verbatim>\<open>message\<close> field, a string
  when it is present.
\<close>

record request =
  message :: "string option"

record response =
  status :: nat
  body :: "(string \<times> string) list"

datatype js_error = InitError | EngineError | TypeError

section \<open>initializeAgent\<close>

text \<open>
  The constructors of the model, the kit and the agent are external; \<open>created\<close> is what
  they give when they are called now: an engine, or \<open>None\<close> when one of them throws.
  The \<^verbatim>\<open>catch\<close> logs and throws the error again.
\<close>

definition initializeAgent ::
  "engine option \<Rightarrow> state \<Rightarrow> (js_error + engine \<times> session_config) \<times> state" where
  "initializeAgent created s =
     (case created of
        None \<Rightarrow>
          (Inl InitError, s\<lparr>console := console s @ [ConsoleError ''Failed to initialize agent:'']\<rparr>)
      | Some e \<Rightarrow> (Inr (e, \<lparr>thread_id = ''Solana Agent Kit!''\<rparr>), s))"

section \<open>The handler of POST /api/chat\<close>

text \<open>\<^verbatim>\<open>!message\<close>: true of \<^verbatim>\<open>undefined\<close> and of the empty string.\<close>

definition js_not :: "string option \<Rightarrow> bool" where
  "js_not v = (case v of None \<Rightarrow> True | Some t \<Rightarrow> t = [])"

text \<open>
  The \<^verbatim>\<open>for await\<close> loop. \<^verbatim>\<open>messages[0].content\<close> on an empty array reads a property of
  \<^verbatim>\<open>undefined\<close> and throws a TypeError. A throw leaves the loop with the state as it is.
\<close>

fun for_await :: "event list \<Rightarrow> string list \<Rightarrow> state \<Rightarrow> (js_error + string list) \<times> state" where
  "for_await [] responses s = (Inr responses, s)"
| "for_await (Throw # rest) responses s = (Inl EngineError, s)"
| "for_await (Yield chunk # rest) responses s =
     (case chunk ''agent'' of
        Some u \<Rightarrow>
          (case messages u of
             [] \<Rightarrow> (Inl TypeError, s)
           | m # _ \<Rightarrow>
               for_await rest (responses @ [js_String (content m)])
                 (s\<lparr>messageHistory := messageHistory s @ [m]\<rparr>))
      | None \<Rightarrow>
          (case chunk ''tools'' of
             Some u \<Rightarrow>
               (case messages u of
                  [] \<Rightarrow> (Inl TypeError, s)
                | m # _ \<Rightarrow>
                    for_await rest responses (s\<lparr>console := console s @ [ConsoleLog (content m)]\<rparr>))
           | None \<Rightarrow> for_await rest responses s))"

text \<open>Lines 94 to 98: the engine to use, created when \<^verbatim>\<open>agent\<close> is still undefined.\<close>

definition ensure_agent :: "engine option \<Rightarrow> state \<Rightarrow> (js_error + engine) \<times> state" where
  "ensure_agent created s =
     (case agent s of
        Some e \<Rightarrow> (Inr e, s)
      | None \<Rightarrow>
          (case initializeAgent created s of
             (Inl err, s') \<Rightarrow> (Inl err, s')
           | (Inr (e, c), s') \<Rightarrow> (Inr e, s'\<lparr>agent := Some e, config := Some c\<rparr>)))"

text \<open>
  Lines 104 to 121, once the call to \<^verbatim>\<open>agent.stream\<close> has given its outcome: the engine
  object is now in its later state, the loop runs, and the joined texts are sent.
\<close>

definition consume :: "outcome \<times> engine \<Rightarrow> state \<Rightarrow> (js_error + response) \<times> state" where
  "consume r s =
     (case r of
        (Rejects, e') \<Rightarrow> (Inl EngineError, s\<lparr>agent := Some e'\<rparr>)
      | (Opens evs, e') \<Rightarrow>
          (case for_await evs [] (s\<lparr>agent := Some e'\<rparr>) of
             (Inl err, s') \<Rightarrow> (Inl err, s')
           | (Inr responses, s') \<Rightarrow>
               (Inr \<lparr>status = 200, body = [(''response'', join [] responses)]\<rparr>, s')))"

text \<open>The body of the \<^verbatim>\<open>try\<close> block.\<close>

definition chat_try :: "engine option \<Rightarrow> request \<Rightarrow> state \<Rightarrow> (js_error + response) \<times> state" where
  "chat_try created req s =
     (if js_not (message req)
      then (Inr \<lparr>status = 400, body = [(''error'', ''Message is required'')]\<rparr>, s)
      else
        (case ensure_agent created s of
           (Inl err, s1) \<Rightarrow> (Inl err, s1)
         | (Inr e, s1) \<Rightarrow>
             (let newMessage = HumanMessage (case message req of Some t \<Rightarrow> t | None \<Rightarrow> []);
                  s2 = s1\<lparr>messageHistory := messageHistory s1 @ [newMessage]\<rparr>
              in consume (stream e (messageHistory s2) (config s2)) s2)))"

text \<open>The handler: whatever the \<^verbatim>\<open>try\<close> block throws is logged and answered with 500.\<close>

definition post_chat :: "engine option \<Rightarrow> request \<Rightarrow> state \<Rightarrow> response \<times> state" where
  "post_chat created req s =
     (case chat_try created req s of
        (Inr res, s') \<Rightarrow> (res, s')
      | (Inl err, s') \<Rightarrow>
          (\<lparr>status = 500, body = [(''error'', ''Internal server error'')]\<rparr>,
           s'\<lparr>console := console s' @ [ConsoleError ''Error processing chat:'']\<rparr>))"

section \<open>The handler of GET /api/health\<close>

definition get_health :: "state \<Rightarrow> response \<times> state" where
  "get_health s = (\<lparr>status = 200, body = [(''status'', ''ok'')]\<rparr>, s)"

section \<open>The server over a sequence of requests\<close>

datatype http_request = PostChat request | GetHealth

text \<open>
  Requests are served one after the other. Each comes with what the constructors would
  give if the handler called them while serving it.
\<close>

definition serve :: "engine option \<times> http_request \<Rightarrow> state \<Rightarrow> response \<times> state" where
  "serve inp s =
     (case snd inp of
        PostChat req \<Rightarrow> post_chat (fst inp) req s
      | GetHealth \<Rightarrow> get_health s)"

fun serve_all :: "(engine option \<times> http_request) list \<Rightarrow> state \<Rightarrow> state" where
  "serve_all [] s = s"
| "serve_all (inp # inps) s = serve_all inps (snd (serve inp s))"


section \<open>Notions used to state the properties\<close>

text \<open>
  An event lets the loop go on when it is a chunk whose selected branch finds a first
  message. \<open>first_failure\<close> is the error that stops the loop, if any.
\<close>

fun chunk_ok :: "chunk \<Rightarrow> bool" where
  "chunk_ok c =
     (case c ''agent'' of
        Some u \<Rightarrow> messages u \<noteq> []
      | None \<Rightarrow> (case c ''tools'' of Some u \<Rightarrow> messages u \<noteq> [] | None \<Rightarrow> True))"

fun event_ok :: "event \<Rightarrow> bool" where
  "event_ok (Yield c) = chunk_ok c"
| "event_ok Throw = False"

fun failure :: "event \<Rightarrow> js_error" where
  "failure (Yield c) = TypeError"
| "failure Throw = EngineError"

fun first_failure :: "event list \<Rightarrow> js_error option" where
  "first_failure [] = None"
| "first_failure (ev # evs) = (if event_ok ev then first_failure evs else Some (failure ev))"

text \<open>
  The spec's reading of a turn: an agent step is a chunk with the key \<^verbatim>\<open>agent\<close>, its
  message is the first one, its text the \<^verbatim>\<open>String\<close> of that message's content. The Turn
  Result is the concatenation of \<open>agent_texts\<close>.
\<close>

fun agent_message :: "event \<Rightarrow> base_message list" where
  "agent_message (Yield c) = (case c ''agent'' of Some u \<Rightarrow> take 1 (messages u) | None \<Rightarrow> [])"
| "agent_message Throw = []"

definition agent_messages :: "event list \<Rightarrow> base_message list" where
  "agent_messages evs = concat (map agent_message evs)"

definition agent_texts :: "event list \<Rightarrow> string list" where
  "agent_texts evs = map (\<lambda>m. js_String (content m)) (agent_messages evs)"

text \<open>A tool step is a chunk with the key \<^verbatim>\<open>tools\<close> and without the key \<^verbatim>\<open>agent\<close>.\<close>

fun is_tool_step :: "event \<Rightarrow> bool" where
  "is_tool_step (Yield c) =
     (case c ''agent'' of
        Some u \<Rightarrow> False
      | None \<Rightarrow> (case c ''tools'' of Some u \<Rightarrow> True | None \<Rightarrow> False))"
| "is_tool_step Throw = False"

definition tool_free :: "event list \<Rightarrow> event list" where
  "tool_free evs = filter (\<lambda>ev. \<not> is_tool_step ev) evs"

fun tool_log :: "event \<Rightarrow> console_line list" where
  "tool_log (Yield c) =
     (case c ''agent'' of
        Some u \<Rightarrow> []
      | None \<Rightarrow>
          (case c ''tools'' of
             Some u \<Rightarrow> map (\<lambda>m. ConsoleLog (content m)) (take 1 (messages u))
           | None \<Rightarrow> []))"
| "tool_log Throw = []"

definition tool_logs :: "event list \<Rightarrow> console_line list" where
  "tool_logs evs = concat (map tool_log evs)"

text \<open>
  \<open>tagged\<close> holds of everything but a chunk with neither key; \<open>first_only\<close> cuts the
  messages of an agent step down to the first.
\<close>

fun tagged :: "event \<Rightarrow> bool" where
  "tagged (Yield c) =
     (case c ''agent'' of
        Some u \<Rightarrow> True
      | None \<Rightarrow> (case c ''tools'' of Some u \<Rightarrow> True | None \<Rightarrow> False))"
| "tagged Throw = True"

fun first_only :: "event \<Rightarrow> event" where
  "first_only (Yield c) =
     Yield (case c ''agent'' of
              Some u \<Rightarrow> c(''agent'' \<mapsto> u\<lparr>messages := take 1 (messages u)\<rparr>)
            | None \<Rightarrow> c)"
| "first_only Throw = Throw"

subsection \<open>Concrete engines and chunks for the examples\<close>

text \<open>An engine that gives the same outcome at every call.\<close>

primcorec scripted :: "outcome \<Rightarrow> engine" where
  "scripted out = Engine (\<lambda>history cfg. (out, scripted out))"

definition agent_chunk :: "base_message list \<Rightarrow> chunk" where
  "agent_chunk ms = [''agent'' \<mapsto> \<lparr>messages = ms\<rparr>]"

definition tools_chunk :: "base_message list \<Rightarrow> chunk" where
  "tools_chunk ms = [''tools'' \<mapsto> \<lparr>messages = ms\<rparr>]"

definition ai :: "string \<Rightarrow> base_message" where
  "ai t = \<lparr>role = AI, content = Text t\<rparr>"

definition tool_message :: "string \<Rightarrow> base_message" where
  "tool_message t = \<lparr>role = Tool, content = Text t\<rparr>"

section \<open>What the loop and the handler compute\<close>

lemma join_empty: "join [] xs = concat xs"
  by (induction "[] :: string" xs rule: join.induct) simp_all

lemma agent_messages_simps [simp]:
  "agent_messages [] = []"
  "agent_messages (ev # evs) = agent_message ev @ agent_messages evs"
  by (simp_all add: agent_messages_def)

lemma agent_texts_simps [simp]:
  "agent_texts [] = []"
  "agent_texts (ev # evs) = map (\<lambda>m. js_String (content m)) (agent_message ev) @ agent_texts evs"
  by (simp_all add: agent_texts_def)

lemma tool_logs_simps [simp]:
  "tool_logs [] = []"
  "tool_logs (ev # evs) = tool_log ev @ tool_logs evs"
  by (simp_all add: tool_logs_def)

lemma for_await_run:
  "for_await evs rs s =
     ((case first_failure evs of
         None \<Rightarrow> Inr (rs @ agent_texts evs)
       | Some err \<Rightarrow> Inl err),
      s\<lparr>messageHistory := messageHistory s @ agent_messages (takeWhile event_ok evs),
        console := console s @ tool_logs (takeWhile event_ok evs)\<rparr>)"
proof (induction evs arbitrary: rs s)
  case Nil
  show ?case by simp
next
  case (Cons ev evs)
  show ?case
  proof (cases ev)
    case Throw
    then show ?thesis by simp
  next
    case (Yield c)
    show ?thesis
    proof (cases "c ''agent''")
      case None
      note noagent = this
      show ?thesis
      proof (cases "c ''tools''")
        case None
        with noagent Yield show ?thesis by (simp add: Cons.IH split: option.split)
      next
        case (Some u)
        with noagent Yield show ?thesis
          by (cases "messages u") (simp_all add: Cons.IH split: option.split)
      qed
    next
      case (Some u)
      with Yield show ?thesis
        by (cases "messages u") (simp_all add: Cons.IH split: option.split)
    qed
  qed
qed

lemma first_failure_None: "first_failure evs = None \<longleftrightarrow> list_all event_ok evs"
  by (induction evs) simp_all

lemma takeWhile_all: "list_all P xs \<Longrightarrow> takeWhile P xs = xs"
  by (induction xs) simp_all

lemma first_failure_append_Throw:
  "list_all event_ok pre \<Longrightarrow> first_failure (pre @ Throw # post) = Some EngineError"
  by (induction pre) simp_all

lemma takeWhile_append_Throw:
  "list_all event_ok pre \<Longrightarrow> takeWhile event_ok (pre @ Throw # post) = pre"
  by (induction pre) simp_all

lemma ensure_agent_frame:
  assumes "ensure_agent created s = (Inr e, s1)"
  shows "messageHistory s1 = messageHistory s" and "console s1 = console s" and "agent s1 = Some e"
  using assms
  by (auto simp: ensure_agent_def initializeAgent_def split: option.splits)

lemma chat_try_turn:
  assumes msg: "message req = Some m" "m \<noteq> []"
    and eng: "ensure_agent created s = (Inr e, s1)"
    and run: "stream e (messageHistory s @ [HumanMessage m]) (config s1) = (Opens evs, e')"
  shows "chat_try created req s =
     ((case first_failure evs of
         None \<Rightarrow> Inr \<lparr>status = 200, body = [(''response'', concat (agent_texts evs))]\<rparr>
       | Some err \<Rightarrow> Inl err),
      s1\<lparr>agent := Some e',
         messageHistory := messageHistory s @ HumanMessage m # agent_messages (takeWhile event_ok evs),
         console := console s @ tool_logs (takeWhile event_ok evs)\<rparr>)"
proof -
  have hist: "messageHistory s1 = messageHistory s" and cons: "console s1 = console s"
    using ensure_agent_frame [OF eng] by simp_all
  show ?thesis
    using msg eng run
    by (simp add: chat_try_def js_not_def consume_def hist cons for_await_run join_empty
        split: option.split)
qed

lemma post_chat_turn:
  assumes msg: "message req = Some m" "m \<noteq> []"
    and eng: "ensure_agent created s = (Inr e, s1)"
    and run: "stream e (messageHistory s @ [HumanMessage m]) (config s1) = (Opens evs, e')"
  shows "post_chat created req s =
     (case first_failure evs of
        None \<Rightarrow>
          (\<lparr>status = 200, body = [(''response'', concat (agent_texts evs))]\<rparr>,
           s1\<lparr>agent := Some e',
              messageHistory := messageHistory s @ HumanMessage m # agent_messages (takeWhile event_ok evs),
              console := console s @ tool_logs (takeWhile event_ok evs)\<rparr>)
      | Some err \<Rightarrow>
          (\<lparr>status = 500, body = [(''error'', ''Internal server error'')]\<rparr>,
           s1\<lparr>agent := Some e',
              messageHistory := messageHistory s @ HumanMessage m # agent_messages (takeWhile event_ok evs),
              console := console s @ tool_logs (takeWhile event_ok evs)
                @ [ConsoleError ''Error processing chat:'']\<rparr>))"
  by (simp add: post_chat_def chat_try_turn [OF msg eng run] split: option.split)


lemma agent_messages_tool_free: "agent_messages (tool_free evs) = agent_messages evs"
proof (induction evs)
  case Nil
  show ?case by (simp add: tool_free_def)
next
  case (Cons ev evs)
  have "is_tool_step ev \<Longrightarrow> agent_message ev = []"
    by (cases ev) (auto split: option.splits)
  with Cons show ?case by (simp add: tool_free_def)
qed

lemma agent_texts_tool_free: "agent_texts (tool_free evs) = agent_texts evs"
  by (simp add: agent_texts_def agent_messages_tool_free)

lemma ensure_agent_fresh:
  "agent s = None \<Longrightarrow>
   ensure_agent (Some e) s =
     (Inr e, s\<lparr>agent := Some e, config := Some \<lparr>thread_id = ''Solana Agent Kit!''\<rparr>\<rparr>)"
  by (simp add: ensure_agent_def initializeAgent_def)

lemma ensure_agent_bound: "agent s = Some e \<Longrightarrow> ensure_agent created s = (Inr e, s)"
  by (simp add: ensure_agent_def)

lemma consume_agent_config:
  "agent (snd (consume r s)) \<noteq> None \<and> config (snd (consume r s)) = config s"
proof (cases r)
  case (Pair out e')
  then show ?thesis
    by (cases out) (simp_all add: consume_def for_await_run split: option.split)
qed

lemma post_chat_bound:
  assumes "agent s = Some e"
  shows "agent (snd (post_chat created rq s)) \<noteq> None
    \<and> config (snd (post_chat created rq s)) = config s"
proof (cases "js_not (message rq)")
  case True
  with assms show ?thesis by (simp add: post_chat_def chat_try_def)
next
  case False
  let ?s2 = "s\<lparr>messageHistory :=
    messageHistory s @ [HumanMessage (case message rq of Some t \<Rightarrow> t | None \<Rightarrow> [])]\<rparr>"
  let ?r = "stream e (messageHistory ?s2) (config ?s2)"
  have tb: "chat_try created rq s = consume ?r ?s2"
    using False assms by (simp add: chat_try_def ensure_agent_bound Let_def)
  obtain x s' where c: "consume ?r ?s2 = (x, s')"
    by (cases "consume ?r ?s2")
  with consume_agent_config [of ?r ?s2]
  have "agent s' \<noteq> None" and "config s' = config s"
    by simp_all
  then show ?thesis
    unfolding post_chat_def tb c by (cases x) simp_all
qed

lemma post_chat_init_fails:
  assumes "agent u = None" and "\<not> js_not (message req)"
  shows "post_chat None req u =
     (\<lparr>status = 500, body = [(''error'', ''Internal server error'')]\<rparr>,
      u\<lparr>console := console u @
          [ConsoleError ''Failed to initialize agent:'', ConsoleError ''Error processing chat:'']\<rparr>)"
  using assms by (simp add: post_chat_def chat_try_def ensure_agent_def initializeAgent_def)

lemma post_chat_fresh:
  assumes "agent u = None" and "\<not> js_not (message req)"
  shows "agent (snd (post_chat (Some e0) req u)) \<noteq> None
    \<and> config (snd (post_chat (Some e0) req u)) = Some \<lparr>thread_id = ''Solana Agent Kit!''\<rparr>"
proof -
  let ?s1 = "u\<lparr>agent := Some e0, config := Some \<lparr>thread_id = ''Solana Agent Kit!''\<rparr>\<rparr>"
  let ?s2 = "?s1\<lparr>messageHistory :=
    messageHistory ?s1 @ [HumanMessage (case message req of Some t \<Rightarrow> t | None \<Rightarrow> [])]\<rparr>"
  let ?r = "stream e0 (messageHistory ?s2) (config ?s2)"
  have tb: "chat_try (Some e0) req u = consume ?r ?s2"
    using assms by (simp add: chat_try_def ensure_agent_fresh Let_def)
  obtain x s' where c: "consume ?r ?s2 = (x, s')"
    by (cases "consume ?r ?s2")
  with consume_agent_config [of ?r ?s2]
  have "agent s' \<noteq> None" and "config s' = Some \<lparr>thread_id = ''Solana Agent Kit!''\<rparr>"
    by simp_all
  then show ?thesis
    unfolding post_chat_def tb c by (cases x) simp_all
qed

lemma post_chat_unbound:
  assumes "agent u = None"
  shows "(agent (snd (post_chat created rq u)) = None \<and> config (snd (post_chat created rq u)) = config u)
    \<or> (agent (snd (post_chat created rq u)) \<noteq> None
        \<and> config (snd (post_chat created rq u)) = Some \<lparr>thread_id = ''Solana Agent Kit!''\<rparr>)"
proof (cases "js_not (message rq)")
  case True
  with assms show ?thesis by (simp add: post_chat_def chat_try_def)
next
  case False
  show ?thesis
  proof (cases created)
    case None
    with post_chat_init_fails [OF assms False] assms show ?thesis by simp
  next
    case (Some e0)
    with post_chat_fresh [OF assms False, of e0] show ?thesis by simp
  qed
qed

lemma serve_inv:
  assumes "(agent s = None \<and> config s = None)
    \<or> (agent s \<noteq> None \<and> config s = Some \<lparr>thread_id = ''Solana Agent Kit!''\<rparr>)"
  shows "(agent (snd (serve inp s)) = None \<and> config (snd (serve inp s)) = None)
    \<or> (agent (snd (serve inp s)) \<noteq> None
        \<and> config (snd (serve inp s)) = Some \<lparr>thread_id = ''Solana Agent Kit!''\<rparr>)"
proof (cases "snd inp")
  case GetHealth
  with assms show ?thesis by (simp add: serve_def get_health_def)
next
  case (PostChat rq)
  show ?thesis
  proof (cases "agent s")
    case None
    with assms post_chat_unbound [OF None, of "fst inp" rq] PostChat show ?thesis
      by (auto simp: serve_def)
  next
    case (Some e)
    with assms post_chat_bound [OF Some, of "fst inp" rq] PostChat show ?thesis
      by (auto simp: serve_def)
  qed
qed

lemma serve_all_inv:
  assumes "(agent s = None \<and> config s = None)
    \<or> (agent s \<noteq> None \<and> config s = Some \<lparr>thread_id = ''Solana Agent Kit!''\<rparr>)"
  shows "(agent (serve_all inps s) = None \<and> config (serve_all inps s) = None)
    \<or> (agent (serve_all inps s) \<noteq> None
        \<and> config (serve_all inps s) = Some \<lparr>thread_id = ''Solana Agent Kit!''\<rparr>)"
  using assms
proof (induction inps arbitrary: s)
  case Nil
  then show ?case by simp
next
  case (Cons inp inps)
  from serve_inv [OF Cons.prems, of inp] have "(agent (snd (serve inp s)) = None \<and> config (snd (serve inp s)) = None)
    \<or> (agent (snd (serve inp s)) \<noteq> None
        \<and> config (snd (serve inp s)) = Some \<lparr>thread_id = ''Solana Agent Kit!''\<rparr>)" .
  from Cons.IH [OF this] show ?case by simp
qed

lemma serve_bound:
  assumes "agent s \<noteq> None"
  shows "agent (snd (serve inp s)) \<noteq> None \<and> config (snd (serve inp s)) = config s"
proof -
  from assms obtain e where e: "agent s = Some e" by auto
  show ?thesis
  proof (cases "snd inp")
    case GetHealth
    with assms show ?thesis by (simp add: serve_def get_health_def)
  next
    case (PostChat rq)
    with post_chat_bound [OF e, of "fst inp" rq] show ?thesis by (simp add: serve_def)
  qed
qed

lemma serve_all_bound:
  "agent s \<noteq> None \<Longrightarrow>
   agent (serve_all inps s) \<noteq> None \<and> config (serve_all inps s) = config s"
proof (induction inps arbitrary: s)
  case Nil
  then show ?case by simp
next
  case (Cons inp inps)
  from serve_bound [OF Cons.prems, of inp] Cons.IH [of "snd (serve inp s)"]
  show ?case by simp
qed

lemma ensure_agent_config:
  assumes "(agent s = None \<and> config s = None)
    \<or> (agent s \<noteq> None \<and> config s = Some \<lparr>thread_id = ''Solana Agent Kit!''\<rparr>)"
    and "ensure_agent created s = (Inr e, s1)"
  shows "config s1 = Some \<lparr>thread_id = ''Solana Agent Kit!''\<rparr>"
  using assms
  by (auto simp: ensure_agent_def initializeAgent_def split: option.splits)

lemma list_all_agent_messages_takeWhile:
  "list_all P (agent_messages evs) \<Longrightarrow> list_all P (agent_messages (takeWhile Q evs))"
  by (induction evs) simp_all

lemma agent_messages_append:
  "agent_messages (xs @ ys) = agent_messages xs @ agent_messages ys"
  by (simp add: agent_messages_def)

lemma agent_texts_append: "agent_texts (xs @ ys) = agent_texts xs @ agent_texts ys"
  by (simp add: agent_texts_def agent_messages_append)

lemma tool_logs_append: "tool_logs (xs @ ys) = tool_logs xs @ tool_logs ys"
  by (simp add: tool_logs_def)

lemma for_await_normalised:
  "for_await evs rs s = for_await (map first_only (filter tagged evs)) rs s"
proof (induction evs arbitrary: rs s)
  case Nil
  show ?case by simp
next
  case (Cons ev evs)
  show ?case
  proof (cases ev)
    case Throw
    then show ?thesis by simp
  next
    case (Yield c)
    show ?thesis
    proof (cases "c ''agent''")
      case None
      then show ?thesis
        using Yield Cons.IH by (cases "c ''tools''") (simp_all split: list.split)
    next
      case (Some u)
      then show ?thesis
        using Yield Cons.IH by (cases "messages u") simp_all
    qed
  qed
qed

lemma for_await_agent_step:
  assumes "list_all event_ok pre" and "c ''agent'' = Some u" and "messages u = m # others"
  shows "for_await (pre @ [Yield c]) rs s =
     (Inr (rs @ agent_texts pre @ [js_String (content m)]),
      s\<lparr>messageHistory := messageHistory s @ agent_messages pre @ [m],
        console := console s @ tool_logs pre\<rparr>)"
proof -
  have ok: "list_all event_ok (pre @ [Yield c])"
    using assms by simp
  then have "first_failure (pre @ [Yield c]) = None"
    by (simp only: first_failure_None)
  then show ?thesis
    using assms
    by (simp add: for_await_run takeWhile_all [OF ok] agent_texts_append agent_messages_append
        tool_logs_append)
qed

lemma for_await_untagged:
  assumes "list_all event_ok pre" and "c ''agent'' = None" and "c ''tools'' = None"
  shows "for_await (pre @ [Yield c]) rs s = for_await pre rs s"
proof -
  have ok: "list_all event_ok (pre @ [Yield c])"
    using assms by simp
  then have "first_failure (pre @ [Yield c]) = None"
    by (simp only: first_failure_None)
  moreover have "first_failure pre = None"
    using assms(1) by (simp only: first_failure_None)
  ultimately show ?thesis
    using assms
    by (simp add: for_await_run takeWhile_all [OF ok] takeWhile_all [OF assms(1)]
        agent_texts_append agent_messages_append tool_logs_append)
qed

lemma post_chat_rejects:
  assumes msg: "message req = Some m" "m \<noteq> []"
    and eng: "ensure_agent created s = (Inr e, s1)"
    and run: "stream e (messageHistory s @ [HumanMessage m]) (config s1) = (Rejects, e')"
  shows "chat_try created req s =
       (Inl EngineError, s1\<lparr>agent := Some e', messageHistory := messageHistory s @ [HumanMessage m]\<rparr>)"
    and "post_chat created req s =
       (\<lparr>status = 500, body = [(''error'', ''Internal server error'')]\<rparr>,
        s1\<lparr>agent := Some e', messageHistory := messageHistory s @ [HumanMessage m],
           console := console s @ [ConsoleError ''Error processing chat:'']\<rparr>)"
proof -
  have hist: "messageHistory s1 = messageHistory s" and cons: "console s1 = console s"
    using ensure_agent_frame [OF eng] by simp_all
  show a: "chat_try created req s =
       (Inl EngineError, s1\<lparr>agent := Some e', messageHistory := messageHistory s @ [HumanMessage m]\<rparr>)"
    using msg eng run by (simp add: chat_try_def js_not_def consume_def hist)
  show "post_chat created req s =
       (\<lparr>status = 500, body = [(''error'', ''Internal server error'')]\<rparr>,
        s1\<lparr>agent := Some e', messageHistory := messageHistory s @ [HumanMessage m],
           console := console s @ [ConsoleError ''Error processing chat:'']\<rparr>)"
    by (simp add: post_chat_def a cons)
qed

section \<open>The Turn Result\<close>

text \<open>
  C1. In a turn whose message is accepted and whose stream opens, the response is the
  concatenation, with no separator, of the agent-step texts in the order of emission,
  whenever the loop runs to the end of the stream (and the answer is 500 otherwise).
  Two agent steps \<open>A\<close> and \<open>B\<close> give \<open>AB\<close>.
\<close>

theorem turn_result_is_concatenation:
  assumes "message req = Some m" and "m \<noteq> []"
    and "ensure_agent created s = (Inr e, s1)"
    and "stream e (messageHistory s @ [HumanMessage m]) (config s1) = (Opens evs, e')"
  shows "fst (post_chat created req s) =
     (if list_all event_ok evs
      then \<lparr>status = 200, body = [(''response'', concat (agent_texts evs))]\<rparr>
      else \<lparr>status = 500, body = [(''error'', ''Internal server error'')]\<rparr>)"
  using first_failure_None [of evs]
  by (auto simp: post_chat_turn [OF assms] split: option.split)

theorem turn_result_is_concatenation_witness:
  "fst (post_chat (Some (scripted (Opens [Yield (agent_chunk [ai ''A'']), Yield (agent_chunk [ai ''B''])])))
         \<lparr>message = Some ''Hi''\<rparr> initial_state)
   = \<lparr>status = 200, body = [(''response'', ''AB'')]\<rparr>"
proof -
  let ?evs = "[Yield (agent_chunk [ai ''A'']), Yield (agent_chunk [ai ''B''])]"
  let ?e = "scripted (Opens ?evs)"
  let ?s1 = "initial_state\<lparr>agent := Some ?e, config := Some \<lparr>thread_id = ''Solana Agent Kit!''\<rparr>\<rparr>"
  have eng: "ensure_agent (Some ?e) initial_state = (Inr ?e, ?s1)"
    by (simp add: ensure_agent_fresh initial_state_def)
  have run: "stream ?e (messageHistory initial_state @ [HumanMessage ''Hi'']) (config ?s1) = (Opens ?evs, ?e)"
    by simp
  have "message \<lparr>message = Some ''Hi''\<rparr> = Some ''Hi''" and "''Hi'' \<noteq> []"
    by simp_all
  from turn_result_is_concatenation [OF this eng run]
  show ?thesis
    by (simp add: agent_chunk_def ai_def)
qed

text \<open>
  C2. The text of a tool step is never part of the Turn Result: in a turn that runs to the
  end of its stream, the response is the one the same stream gives with its tool steps
  left out. A tool step followed by an agent step \<open>Done\<close> gives \<open>Done\<close>.
\<close>

theorem tool_output_not_in_turn_result:
  assumes "message req = Some m" and "m \<noteq> []"
    and "ensure_agent created s = (Inr e, s1)"
    and "stream e (messageHistory s @ [HumanMessage m]) (config s1) = (Opens evs, e')"
    and ok: "list_all event_ok evs"
  shows "fst (post_chat created req s) =
     \<lparr>status = 200, body = [(''response'', concat (agent_texts (tool_free evs)))]\<rparr>"
proof -
  have "first_failure evs = None"
    using ok by (simp add: first_failure_None)
  then show ?thesis
    by (simp add: post_chat_turn [OF assms(1-4)] agent_texts_tool_free)
qed

theorem tool_output_not_in_turn_result_witness:
  "fst (post_chat
         (Some (scripted (Opens [Yield (tools_chunk [tool_message ''balance: 5 SOL'']),
                                Yield (agent_chunk [ai ''Done''])])))
         \<lparr>message = Some ''Hi''\<rparr> initial_state)
   = \<lparr>status = 200, body = [(''response'', ''Done'')]\<rparr>"
proof -
  let ?evs = "[Yield (tools_chunk [tool_message ''balance: 5 SOL'']), Yield (agent_chunk [ai ''Done''])]"
  let ?e = "scripted (Opens ?evs)"
  let ?s1 = "initial_state\<lparr>agent := Some ?e, config := Some \<lparr>thread_id = ''Solana Agent Kit!''\<rparr>\<rparr>"
  have eng: "ensure_agent (Some ?e) initial_state = (Inr ?e, ?s1)"
    by (simp add: ensure_agent_fresh initial_state_def)
  have run: "stream ?e (messageHistory initial_state @ [HumanMessage ''Hi'']) (config ?s1) = (Opens ?evs, ?e)"
    by simp
  have ok: "list_all event_ok ?evs"
    by (simp add: tools_chunk_def agent_chunk_def)
  have "message \<lparr>message = Some ''Hi''\<rparr> = Some ''Hi''" and "''Hi'' \<noteq> []"
    by simp_all
  from tool_output_not_in_turn_result [OF this eng run ok]
  show ?thesis
    by (simp add: tool_free_def agent_chunk_def tools_chunk_def ai_def)
qed

section \<open>A plain turn\<close>

text \<open>
  C6. When the stream of a turn is one agent step with a text content, the response is that
  text and the transcript grows by two messages: the user message, then the agent message.
\<close>

theorem single_agent_step_turn:
  assumes "message req = Some m" and "m \<noteq> []"
    and "ensure_agent created s = (Inr e, s1)"
    and "stream e (messageHistory s @ [HumanMessage m]) (config s1) = (Opens [Yield c], e')"
    and c: "c ''agent'' = Some u" "messages u = a # others" "content a = Text t"
  shows "fst (post_chat created req s) = \<lparr>status = 200, body = [(''response'', t)]\<rparr>
    \<and> messageHistory (snd (post_chat created req s)) = messageHistory s @ [HumanMessage m, a]
    \<and> length (messageHistory (snd (post_chat created req s))) = length (messageHistory s) + 2"
  using c by (simp add: post_chat_turn [OF assms(1-4)])

theorem single_agent_step_turn_witness:
  "fst (post_chat (Some (scripted (Opens [Yield (agent_chunk [ai ''Hi there''])])))
         \<lparr>message = Some ''Hello''\<rparr> initial_state)
     = \<lparr>status = 200, body = [(''response'', ''Hi there'')]\<rparr>
   \<and> messageHistory (snd (post_chat (Some (scripted (Opens [Yield (agent_chunk [ai ''Hi there''])])))
         \<lparr>message = Some ''Hello''\<rparr> initial_state))
     = [HumanMessage ''Hello'', ai ''Hi there'']"
proof -
  let ?c = "agent_chunk [ai ''Hi there'']"
  let ?e = "scripted (Opens [Yield ?c])"
  let ?s1 = "initial_state\<lparr>agent := Some ?e, config := Some \<lparr>thread_id = ''Solana Agent Kit!''\<rparr>\<rparr>"
  have eng: "ensure_agent (Some ?e) initial_state = (Inr ?e, ?s1)"
    by (simp add: ensure_agent_fresh initial_state_def)
  have run: "stream ?e (messageHistory initial_state @ [HumanMessage ''Hello'']) (config ?s1)
      = (Opens [Yield ?c], ?e)"
    by simp
  have c: "?c ''agent'' = Some \<lparr>messages = [ai ''Hi there'']\<rparr>"
    "messages \<lparr>messages = [ai ''Hi there'']\<rparr> = ai ''Hi there'' # []"
    "content (ai ''Hi there'') = Text ''Hi there''"
    by (simp_all add: agent_chunk_def ai_def)
  have "message \<lparr>message = Some ''Hello''\<rparr> = Some ''Hello''" and "''Hello'' \<noteq> []"
    by simp_all
  from single_agent_step_turn [OF this eng run c]
  show ?thesis
    by (simp add: initial_state_def)
qed

section \<open>What the loop reads of a chunk\<close>

text \<open>
  C10. What the loop does with each chunk. Its result is the texts of the first messages
  of the agent steps, and its transcript the old one with those first messages appended,
  in the order of emission. After any steps that went through, an agent step whose
  messages are \<open>m\<close> and then others adds the text of \<open>m\<close> to the result and \<open>m\<close> to the
  transcript, and nothing of the others; a chunk with neither key adds nothing and is
  no error. So the loop gives the same result and state on a stream and on that stream
  with the chunks of neither key removed and every agent step cut to its first message.
\<close>

theorem first_message_only_and_untagged_ignored:
  "for_await evs rs s =
     ((case first_failure evs of
         None \<Rightarrow> Inr (rs @ agent_texts evs)
       | Some err \<Rightarrow> Inl err),
      s\<lparr>messageHistory := messageHistory s @ agent_messages (takeWhile event_ok evs),
        console := console s @ tool_logs (takeWhile event_ok evs)\<rparr>)
   \<and> (list_all event_ok pre \<and> c ''agent'' = Some u \<and> messages u = m # others \<longrightarrow>
        for_await (pre @ [Yield c]) rs s =
          (Inr (rs @ agent_texts pre @ [js_String (content m)]),
           s\<lparr>messageHistory := messageHistory s @ agent_messages pre @ [m],
             console := console s @ tool_logs pre\<rparr>))
   \<and> (list_all event_ok pre \<and> d ''agent'' = None \<and> d ''tools'' = None \<longrightarrow>
        for_await (pre @ [Yield d]) rs s = for_await pre rs s)
   \<and> for_await evs rs s = for_await (map first_only (filter tagged evs)) rs s"
  using for_await_run [of evs rs s] for_await_agent_step [of pre c u m others rs s]
    for_await_untagged [of pre d rs s] for_await_normalised [of evs rs s]
  by blast

theorem first_message_only_and_untagged_ignored_witness:
  "for_await [Yield (agent_chunk [ai ''A'']), Yield (agent_chunk [ai ''first'', ai ''second''])]
       [] initial_state
     = (Inr [''A'', ''first''], initial_state\<lparr>messageHistory := [ai ''A'', ai ''first'']\<rparr>)
   \<and> for_await [Yield (agent_chunk [ai ''A'']), Yield [''other'' \<mapsto> \<lparr>messages = [ai ''x'']\<rparr>]]
       [] initial_state
     = (Inr [''A''], initial_state\<lparr>messageHistory := [ai ''A'']\<rparr>)"
proof -
  let ?pre = "[Yield (agent_chunk [ai ''A''])]"
  let ?c = "agent_chunk [ai ''first'', ai ''second'']"
  let ?d = "[''other'' \<mapsto> \<lparr>messages = [ai ''x'']\<rparr>]"
  have ok: "list_all event_ok ?pre"
    by (simp add: agent_chunk_def)
  have c: "?c ''agent'' = Some \<lparr>messages = [ai ''first'', ai ''second'']\<rparr>"
    "messages \<lparr>messages = [ai ''first'', ai ''second'']\<rparr> = ai ''first'' # [ai ''second'']"
    by (simp_all add: agent_chunk_def)
  have d: "?d ''agent'' = None" "?d ''tools'' = None"
    by simp_all
  from first_message_only_and_untagged_ignored
    [of ?pre "[]" initial_state ?pre ?c "\<lparr>messages = [ai ''first'', ai ''second'']\<rparr>"
      "ai ''first''" "[ai ''second'']" ?d]
  have step: "for_await (?pre @ [Yield ?c]) [] initial_state =
      (Inr ([] @ agent_texts ?pre @ [js_String (content (ai ''first''))]),
       initial_state\<lparr>messageHistory := messageHistory initial_state @ agent_messages ?pre @ [ai ''first''],
         console := console initial_state @ tool_logs ?pre\<rparr>)"
    and skip: "for_await (?pre @ [Yield ?d]) [] initial_state = for_await ?pre [] initial_state"
    using ok c d by blast+
  show ?thesis
    using step skip by (simp add: agent_chunk_def ai_def initial_state_def)
qed

section \<open>The transcript\<close>

text \<open>
  C9. Tool steps are never stored: after a turn the transcript is the old one, the user
  message and the agent messages of the steps that went through, the same as for the
  stream without its tool steps; the contents of the tool steps are on the console when
  the turn completes; so if neither the old transcript nor the agent steps hold a message
  of role tool, the new transcript holds none, whatever the tool steps carry.
\<close>

theorem tool_steps_never_stored:
  assumes "message req = Some m" and "m \<noteq> []"
    and "ensure_agent created s = (Inr e, s1)"
    and "stream e (messageHistory s @ [HumanMessage m]) (config s1) = (Opens evs, e')"
  shows "messageHistory (snd (post_chat created req s))
       = messageHistory s @ HumanMessage m # agent_messages (tool_free (takeWhile event_ok evs))
    \<and> (list_all event_ok evs \<longrightarrow>
         console (snd (post_chat created req s)) = console s @ tool_logs evs)
    \<and> (list_all (\<lambda>x. role x \<noteq> Tool) (messageHistory s @ agent_messages evs) \<longrightarrow>
         list_all (\<lambda>x. role x \<noteq> Tool) (messageHistory (snd (post_chat created req s))))"
proof -
  have hist: "messageHistory (snd (post_chat created req s))
       = messageHistory s @ HumanMessage m # agent_messages (takeWhile event_ok evs)"
    by (simp add: post_chat_turn [OF assms] split: option.split)
  have cons: "console (snd (post_chat created req s)) = console s @ tool_logs evs"
    if "list_all event_ok evs"
    using that first_failure_None [of evs]
    by (simp add: post_chat_turn [OF assms] takeWhile_all)
  have roles: "list_all (\<lambda>x. role x \<noteq> Tool) (messageHistory (snd (post_chat created req s)))"
    if "list_all (\<lambda>x. role x \<noteq> Tool) (messageHistory s @ agent_messages evs)"
    using that list_all_agent_messages_takeWhile [of "\<lambda>x. role x \<noteq> Tool" evs event_ok]
    by (simp add: hist HumanMessage_def)
  show ?thesis
    using hist cons roles by (simp add: agent_messages_tool_free)
qed

theorem tool_steps_never_stored_witness:
  "messageHistory (snd (post_chat
         (Some (scripted (Opens [Yield (tools_chunk [tool_message ''balance: 5 SOL'']),
                                Yield (agent_chunk [ai ''Done''])])))
         \<lparr>message = Some ''Hi''\<rparr> initial_state))
     = [HumanMessage ''Hi'', ai ''Done'']
   \<and> console (snd (post_chat
         (Some (scripted (Opens [Yield (tools_chunk [tool_message ''balance: 5 SOL'']),
                                Yield (agent_chunk [ai ''Done''])])))
         \<lparr>message = Some ''Hi''\<rparr> initial_state))
     = [ConsoleLog (Text ''balance: 5 SOL'')]
   \<and> list_all (\<lambda>x. role x \<noteq> Tool) (messageHistory (snd (post_chat
         (Some (scripted (Opens [Yield (tools_chunk [tool_message ''balance: 5 SOL'']),
                                Yield (agent_chunk [ai ''Done''])])))
         \<lparr>message = Some ''Hi''\<rparr> initial_state)))"
proof -
  let ?evs = "[Yield (tools_chunk [tool_message ''balance: 5 SOL'']), Yield (agent_chunk [ai ''Done''])]"
  let ?e = "scripted (Opens ?evs)"
  let ?s1 = "initial_state\<lparr>agent := Some ?e, config := Some \<lparr>thread_id = ''Solana Agent Kit!''\<rparr>\<rparr>"
  have eng: "ensure_agent (Some ?e) initial_state = (Inr ?e, ?s1)"
    by (simp add: ensure_agent_fresh initial_state_def)
  have run: "stream ?e (messageHistory initial_state @ [HumanMessage ''Hi'']) (config ?s1) = (Opens ?evs, ?e)"
    by simp
  have ok: "list_all event_ok ?evs"
    by (simp add: tools_chunk_def agent_chunk_def)
  have roles: "list_all (\<lambda>x. role x \<noteq> Tool) (messageHistory initial_state @ agent_messages ?evs)"
    by (simp add: initial_state_def tools_chunk_def agent_chunk_def ai_def)
  have "message \<lparr>message = Some ''Hi''\<rparr> = Some ''Hi''" and "''Hi'' \<noteq> []"
    by simp_all
  from tool_steps_never_stored [OF this eng run] ok roles
  show ?thesis
    by (simp add: tool_free_def agent_chunk_def tools_chunk_def ai_def tool_message_def
        initial_state_def HumanMessage_def)
qed

section \<open>Failures\<close>

text \<open>
  C3. When the engine throws in the course of a turn, be it the call to \<^verbatim>\<open>stream\<close>
  that rejects (no step has gone through then) or the iterator that throws after some
  steps that went through, the \<^verbatim>\<open>try\<close> block fails with the engine's error, the answer
  is 500 with the generic error text, and the transcript holds what it held before, the
  user message and the agent messages of the steps before the throw: nothing is rolled
  back, nothing after the throw is appended.
\<close>

theorem engine_throw_keeps_partial_transcript:
  assumes "message req = Some m" and "m \<noteq> []"
    and "ensure_agent created s = (Inr e, s1)"
    and "stream e (messageHistory s @ [HumanMessage m]) (config s1) = (out, e')"
    and thrown: "(out = Rejects \<and> pre = []) \<or> out = Opens (pre @ Throw # post)"
    and ok: "list_all event_ok pre"
  shows "fst (chat_try created req s) = Inl EngineError
    \<and> fst (post_chat created req s) = \<lparr>status = 500, body = [(''error'', ''Internal server error'')]\<rparr>
    \<and> messageHistory (snd (post_chat created req s))
        = messageHistory s @ HumanMessage m # agent_messages pre"
  using thrown
proof
  assume r: "out = Rejects \<and> pre = []"
  with assms(4) have run: "stream e (messageHistory s @ [HumanMessage m]) (config s1) = (Rejects, e')"
    by simp
  from r show ?thesis
    by (simp add: post_chat_rejects [OF assms(1-3) run])
next
  assume o: "out = Opens (pre @ Throw # post)"
  with assms(4) have run: "stream e (messageHistory s @ [HumanMessage m]) (config s1)
      = (Opens (pre @ Throw # post), e')"
    by simp
  show ?thesis
    using first_failure_append_Throw [OF ok, of post] takeWhile_append_Throw [OF ok, of post]
    by (simp add: post_chat_turn [OF assms(1-3) run] chat_try_turn [OF assms(1-3) run])
qed

theorem engine_throw_keeps_partial_transcript_witness:
  "fst (post_chat
         (Some (scripted (Opens [Yield (agent_chunk [ai ''one'']), Throw, Yield (agent_chunk [ai ''three''])])))
         \<lparr>message = Some ''Hi''\<rparr> initial_state)
     = \<lparr>status = 500, body = [(''error'', ''Internal server error'')]\<rparr>
   \<and> messageHistory (snd (post_chat
         (Some (scripted (Opens [Yield (agent_chunk [ai ''one'']), Throw, Yield (agent_chunk [ai ''three''])])))
         \<lparr>message = Some ''Hi''\<rparr> initial_state))
     = [HumanMessage ''Hi'', ai ''one'']
   \<and> fst (post_chat (Some (scripted Rejects)) \<lparr>message = Some ''Hi''\<rparr> initial_state)
     = \<lparr>status = 500, body = [(''error'', ''Internal server error'')]\<rparr>
   \<and> messageHistory (snd (post_chat (Some (scripted Rejects)) \<lparr>message = Some ''Hi''\<rparr> initial_state))
     = [HumanMessage ''Hi'']"
proof -
  let ?pre = "[Yield (agent_chunk [ai ''one''])]"
  let ?post = "[Yield (agent_chunk [ai ''three''])]"
  let ?e = "scripted (Opens (?pre @ Throw # ?post))"
  let ?s1 = "initial_state\<lparr>agent := Some ?e, config := Some \<lparr>thread_id = ''Solana Agent Kit!''\<rparr>\<rparr>"
  let ?r = "scripted Rejects"
  let ?r1 = "initial_state\<lparr>agent := Some ?r, config := Some \<lparr>thread_id = ''Solana Agent Kit!''\<rparr>\<rparr>"
  have eng: "ensure_agent (Some ?e) initial_state = (Inr ?e, ?s1)"
    by (simp add: ensure_agent_fresh initial_state_def)
  have run: "stream ?e (messageHistory initial_state @ [HumanMessage ''Hi'']) (config ?s1)
      = (Opens (?pre @ Throw # ?post), ?e)"
    by simp
  have thrown: "(Opens (?pre @ Throw # ?post) = Rejects \<and> ?pre = [])
      \<or> Opens (?pre @ Throw # ?post) = Opens (?pre @ Throw # ?post)"
    by simp
  have ok: "list_all event_ok ?pre"
    by (simp add: agent_chunk_def)
  have engr: "ensure_agent (Some ?r) initial_state = (Inr ?r, ?r1)"
    by (simp add: ensure_agent_fresh initial_state_def)
  have runr: "stream ?r (messageHistory initial_state @ [HumanMessage ''Hi'']) (config ?r1) = (Rejects, ?r)"
    by simp
  have thrownr: "(Rejects = Rejects \<and> ([] :: event list) = []) \<or> Rejects = Opens ([] @ Throw # [])"
    by simp
  have okr: "list_all event_ok []"
    by simp
  have m: "message \<lparr>message = Some ''Hi''\<rparr> = Some ''Hi''" "''Hi'' \<noteq> []"
    by simp_all
  from engine_throw_keeps_partial_transcript [OF m eng run thrown ok]
    engine_throw_keeps_partial_transcript [OF m engr runr thrownr okr]
  show ?thesis
    by (simp add: agent_chunk_def initial_state_def)
qed

text \<open>
  C4. A request whose message is absent or the empty string is answered with 400 and
  \<open>Message is required\<close>; the whole state is as before (no user message appended), and
  the answer is the same whatever the engine and the constructors would do.
\<close>

theorem empty_message_rejected:
  assumes "message req = None \<or> message req = Some []"
  shows "post_chat created req s =
     (\<lparr>status = 400, body = [(''error'', ''Message is required'')]\<rparr>, s)"
  using assms by (auto simp: post_chat_def chat_try_def js_not_def)

theorem empty_message_rejected_witness:
  "post_chat (Some (scripted Rejects)) \<lparr>message = Some ''''\<rparr> initial_state
     = (\<lparr>status = 400, body = [(''error'', ''Message is required'')]\<rparr>, initial_state)
   \<and> post_chat None \<lparr>message = None\<rparr> initial_state
     = (\<lparr>status = 400, body = [(''error'', ''Message is required'')]\<rparr>, initial_state)"
  using empty_message_rejected [of "\<lparr>message = Some ''''\<rparr>" "Some (scripted Rejects)" initial_state]
    empty_message_rejected [of "\<lparr>message = None\<rparr>" None initial_state]
  by simp

section \<open>Initialisation\<close>

text \<open>
  C5. Once \<^verbatim>\<open>agent\<close> is set, the handler uses it and never calls the constructors again:
  its answer and state do not depend on what they would give, and \<^verbatim>\<open>agent\<close> stays set
  with the same config. While \<^verbatim>\<open>agent\<close> is unset, a request with a message calls them;
  if they throw, the answer is 500, only the console changes (so \<^verbatim>\<open>agent\<close> stays
  unset), and the next request initialises afresh; if they succeed, \<^verbatim>\<open>agent\<close> and the
  config are set.
\<close>

theorem initialization_once_and_retried:
  assumes "agent s = Some e" and "agent u = None" and "\<not> js_not (message req)"
  shows "ensure_agent created s = (Inr e, s)
    \<and> post_chat created rq s = post_chat created' rq s
    \<and> agent (snd (post_chat created rq s)) \<noteq> None
    \<and> config (snd (post_chat created rq s)) = config s
    \<and> post_chat None req u =
        (\<lparr>status = 500, body = [(''error'', ''Internal server error'')]\<rparr>,
         u\<lparr>console := console u @
             [ConsoleError ''Failed to initialize agent:'', ConsoleError ''Error processing chat:'']\<rparr>)
    \<and> ensure_agent (Some e0) (snd (post_chat None req u)) =
        (Inr e0, (snd (post_chat None req u))
           \<lparr>agent := Some e0, config := Some \<lparr>thread_id = ''Solana Agent Kit!''\<rparr>\<rparr>)
    \<and> agent (snd (post_chat (Some e0) req u)) \<noteq> None
    \<and> config (snd (post_chat (Some e0) req u)) = Some \<lparr>thread_id = ''Solana Agent Kit!''\<rparr>"
proof -
  have same: "post_chat created rq s = post_chat created' rq s"
    using assms(1) by (simp add: post_chat_def chat_try_def ensure_agent_bound)
  have fails: "post_chat None req u =
        (\<lparr>status = 500, body = [(''error'', ''Internal server error'')]\<rparr>,
         u\<lparr>console := console u @
             [ConsoleError ''Failed to initialize agent:'', ConsoleError ''Error processing chat:'']\<rparr>)"
    by (rule post_chat_init_fails [OF assms(2,3)])
  have retry: "ensure_agent (Some e0) (snd (post_chat None req u)) =
        (Inr e0, (snd (post_chat None req u))
           \<lparr>agent := Some e0, config := Some \<lparr>thread_id = ''Solana Agent Kit!''\<rparr>\<rparr>)"
    using assms(2) by (simp add: fails ensure_agent_fresh)
  show ?thesis
    using ensure_agent_bound [OF assms(1), of created] same post_chat_bound [OF assms(1), of created rq]
      fails retry post_chat_fresh [OF assms(2,3), of e0]
    by simp
qed

theorem initialization_once_and_retried_witness:
  "agent (snd (post_chat None \<lparr>message = Some ''Hi''\<rparr> initial_state)) = None
   \<and> config (snd (post_chat None \<lparr>message = Some ''Hi''\<rparr> initial_state)) = None
   \<and> messageHistory (snd (post_chat None \<lparr>message = Some ''Hi''\<rparr> initial_state)) = []
   \<and> fst (post_chat None \<lparr>message = Some ''Hi''\<rparr> initial_state)
       = \<lparr>status = 500, body = [(''error'', ''Internal server error'')]\<rparr>
   \<and> config (snd (post_chat (Some (scripted Rejects)) \<lparr>message = Some ''Hi''\<rparr> initial_state))
       = Some \<lparr>thread_id = ''Solana Agent Kit!''\<rparr>
   \<and> post_chat None \<lparr>message = Some ''again''\<rparr>
        (initial_state\<lparr>agent := Some (scripted (Opens [])), config := Some \<lparr>thread_id = ''Solana Agent Kit!''\<rparr>\<rparr>)
     = post_chat (Some (scripted Rejects)) \<lparr>message = Some ''again''\<rparr>
        (initial_state\<lparr>agent := Some (scripted (Opens [])), config := Some \<lparr>thread_id = ''Solana Agent Kit!''\<rparr>\<rparr>)"
proof -
  let ?s = "initial_state\<lparr>agent := Some (scripted (Opens [])), config := Some \<lparr>thread_id = ''Solana Agent Kit!''\<rparr>\<rparr>"
  have a: "agent ?s = Some (scripted (Opens []))"
    by simp
  have b: "agent initial_state = None"
    by (simp add: initial_state_def)
  have c: "\<not> js_not (message \<lparr>message = Some ''Hi''\<rparr>)"
    by (simp add: js_not_def)
  from initialization_once_and_retried [OF a b c, of None "\<lparr>message = Some ''again''\<rparr>"
      "Some (scripted Rejects)" "scripted Rejects"]
  show ?thesis
    by (simp add: initial_state_def)
qed

text \<open>
  C7. In every state the server reaches from its start, by any requests and whatever the
  constructors and engines do, either nothing is initialised or the config is the one
  with thread id \<open>Solana Agent Kit!\<close>; once \<^verbatim>\<open>agent\<close> is set the config is never
  assigned again; and every turn calls the engine with that one config, whoever sends
  the request.
\<close>

theorem one_session_config_for_all_turns:
  assumes reach: "s = serve_all inps initial_state"
  shows "((agent s = None \<and> config s = None)
      \<or> (agent s \<noteq> None \<and> config s = Some \<lparr>thread_id = ''Solana Agent Kit!''\<rparr>))
    \<and> (agent s \<noteq> None \<longrightarrow>
         agent (serve_all later s) \<noteq> None \<and> config (serve_all later s) = config s)
    \<and> (message req = Some m \<and> m \<noteq> [] \<and> ensure_agent created s = (Inr e, s1) \<longrightarrow>
         chat_try created req s =
           consume (stream e (messageHistory s @ [HumanMessage m])
                      (Some \<lparr>thread_id = ''Solana Agent Kit!''\<rparr>))
             (s1\<lparr>messageHistory := messageHistory s @ [HumanMessage m]\<rparr>))"
proof -
  have init: "(agent initial_state = None \<and> config initial_state = None)
    \<or> (agent initial_state \<noteq> None
        \<and> config initial_state = Some \<lparr>thread_id = ''Solana Agent Kit!''\<rparr>)"
    by (simp add: initial_state_def)
  have inv: "(agent s = None \<and> config s = None)
      \<or> (agent s \<noteq> None \<and> config s = Some \<lparr>thread_id = ''Solana Agent Kit!''\<rparr>)"
    unfolding reach by (rule serve_all_inv [OF init])
  have run: "chat_try created req s =
           consume (stream e (messageHistory s @ [HumanMessage m])
                      (Some \<lparr>thread_id = ''Solana Agent Kit!''\<rparr>))
             (s1\<lparr>messageHistory := messageHistory s @ [HumanMessage m]\<rparr>)"
    if h: "message req = Some m" "m \<noteq> []" "ensure_agent created s = (Inr e, s1)"
  proof -
    have "config s1 = Some \<lparr>thread_id = ''Solana Agent Kit!''\<rparr>"
      by (rule ensure_agent_config [OF inv h(3)])
    moreover have "messageHistory s1 = messageHistory s"
      by (rule ensure_agent_frame(1) [OF h(3)])
    ultimately show ?thesis
      using h by (simp add: chat_try_def js_not_def Let_def)
  qed
  show ?thesis
    using inv serve_all_bound [of s later] run by blast
qed

theorem one_session_config_for_all_turns_witness:
  "config (serve_all [(Some (scripted (Opens [Yield (agent_chunk [ai ''Hello''])])), PostChat \<lparr>message = Some ''Hi''\<rparr>)]
            initial_state)
     = Some \<lparr>thread_id = ''Solana Agent Kit!''\<rparr>
   \<and> config (serve_all [(Some (scripted Rejects), PostChat \<lparr>message = Some ''again''\<rparr>), (None, GetHealth)]
       (serve_all [(Some (scripted (Opens [Yield (agent_chunk [ai ''Hello''])])), PostChat \<lparr>message = Some ''Hi''\<rparr>)]
            initial_state))
     = Some \<lparr>thread_id = ''Solana Agent Kit!''\<rparr>
   \<and> chat_try None \<lparr>message = Some ''again''\<rparr>
       (serve_all [(Some (scripted (Opens [Yield (agent_chunk [ai ''Hello''])])), PostChat \<lparr>message = Some ''Hi''\<rparr>)]
            initial_state)
     = consume (stream (scripted (Opens [Yield (agent_chunk [ai ''Hello''])]))
                  [HumanMessage ''Hi'', ai ''Hello'', HumanMessage ''again'']
                  (Some \<lparr>thread_id = ''Solana Agent Kit!''\<rparr>))
         (initial_state\<lparr>agent := Some (scripted (Opens [Yield (agent_chunk [ai ''Hello''])])),
            config := Some \<lparr>thread_id = ''Solana Agent Kit!''\<rparr>,
            messageHistory := [HumanMessage ''Hi'', ai ''Hello'', HumanMessage ''again'']\<rparr>)"
proof -
  let ?e = "scripted (Opens [Yield (agent_chunk [ai ''Hello''])])"
  let ?inps = "[(Some ?e, PostChat \<lparr>message = Some ''Hi''\<rparr>)]"
  let ?later = "[(Some (scripted Rejects), PostChat \<lparr>message = Some ''again''\<rparr>), (None, GetHealth)]"
  let ?s = "serve_all ?inps initial_state"
  have s: "?s = initial_state\<lparr>agent := Some ?e,
      config := Some \<lparr>thread_id = ''Solana Agent Kit!''\<rparr>,
      messageHistory := [HumanMessage ''Hi'', ai ''Hello'']\<rparr>"
    by (simp add: serve_def post_chat_def chat_try_def js_not_def ensure_agent_def
        initializeAgent_def consume_def initial_state_def agent_chunk_def)
  have a: "agent ?s \<noteq> None" and c: "config ?s = Some \<lparr>thread_id = ''Solana Agent Kit!''\<rparr>"
    and h: "messageHistory ?s = [HumanMessage ''Hi'', ai ''Hello'']"
    unfolding s by simp_all
  have m: "message \<lparr>message = Some ''again''\<rparr> = Some ''again''" "''again'' \<noteq> []"
    by simp_all
  have eng: "ensure_agent None ?s = (Inr ?e, ?s)"
    unfolding s by (simp add: ensure_agent_def)
  from one_session_config_for_all_turns
    [OF refl, of ?inps ?later "\<lparr>message = Some ''again''\<rparr>" "''again''" None ?e ?s]
  have keep: "config (serve_all ?later ?s) = config ?s"
    and call: "chat_try None \<lparr>message = Some ''again''\<rparr> ?s =
      consume (stream ?e (messageHistory ?s @ [HumanMessage ''again''])
          (Some \<lparr>thread_id = ''Solana Agent Kit!''\<rparr>))
        (?s\<lparr>messageHistory := messageHistory ?s @ [HumanMessage ''again'']\<rparr>)"
    using a m eng by blast+
  have h': "messageHistory ?s @ [HumanMessage ''again'']
      = [HumanMessage ''Hi'', ai ''Hello'', HumanMessage ''again'']"
    unfolding s by simp
  have upd: "?s\<lparr>messageHistory := [HumanMessage ''Hi'', ai ''Hello'', HumanMessage ''again'']\<rparr>
      = initial_state\<lparr>agent := Some ?e,
          config := Some \<lparr>thread_id = ''Solana Agent Kit!''\<rparr>,
          messageHistory := [HumanMessage ''Hi'', ai ''Hello'', HumanMessage ''again'']\<rparr>"
    unfolding s by simp
  show ?thesis
    using c keep [unfolded c] call [unfolded h' upd] by blast
qed

section \<open>Health\<close>

text \<open>
  C8. A request to \<^verbatim>\<open>GET /api/health\<close> is answered with 200 and status \<open>ok\<close> in every
  state, initialised or not, whatever the constructors would do, and changes nothing.
\<close>

theorem health_always_ok:
  "serve (created, GetHealth) s = (\<lparr>status = 200, body = [(''status'', ''ok'')]\<rparr>, s)"
  by (simp add: serve_def get_health_def)

end
